theory Spec2Isabelle
  imports Main "HOL-Library.AList"
begin

section \<open>Values, tokens and failures\<close>

text \<open>
  A JSON value carried in a token's claims. The tokens of this program carry strings
  (\<open>sub\<close>, \<open>scope\<close>) and integer timestamps (\<open>iat\<close>, \<open>exp\<close>); \<open>null\<close> is the third
  kind of value the model represents. Booleans, fractional numbers, lists and objects are
  not represented.
\<close>

datatype jvalue = JStr string | JInt int | JNull

text \<open>A Python dict with string keys: an association list read with \<open>map_of\<close> and
  written with \<open>AList.update\<close> (\<open>dict.update\<close>).\<close>

type_synonym claims = "(string \<times> jvalue) list"

text \<open>
  The bearer string. \<open>JWS alg payload key signed\<close> stands for the compact serialisation
  whose header names \<open>alg\<close>, whose claims are \<open>payload\<close> and whose signature part is the
  tag computed under \<open>key\<close> over the claims \<open>signed\<close> (an ideal MAC: the tag verifies under
  a key for a payload only when it was computed under that key for that payload).
  \<open>Malformed s\<close> is any string that is not such a three-part structure.
\<close>

datatype token = Malformed string | JWS string claims string claims

text \<open>The exception classes of the token library that \<open>except JWTError\<close> catches: the
  class itself and its two subclasses.\<close>

datatype jwt_error = JWTError | ExpiredSignatureError | JWTClaimsError

text \<open>What a call of this program can raise: an \<open>HTTPException\<close> with its status code
  and detail, or an exception that no handler of the program catches.\<close>

datatype error =
    HTTPException nat string
  | KeyError string
  | AttributeError string
  | TypeError
  | ValueError
  | OverflowError
  | JWSError
  | JWKError
  | UnknownHashError
  | RedisError

text \<open>What \<open>jwt.decode\<close> raises: an exception of the \<open>JWTError\<close> family, or another
  exception, which \<open>except JWTError\<close> lets through.\<close>

datatype raised = Jose jwt_error | Other error

record settings =
  secret_key :: string
  algorithm :: string

section \<open>Python's \<open>int\<close> and \<open>datetime\<close>\<close>

text \<open>
  \<open>int(v)\<close> for a claim value: an integer is itself, \<open>None\<close> raises \<open>TypeError\<close>, and
  a string is read as a decimal literal (surrounding whitespace, an optional sign, digits
  with single underscores between them) or raises \<open>ValueError\<close>. Strings are read as
  ASCII.
\<close>

definition py_isspace :: "char \<Rightarrow> bool" where
  "py_isspace c = ((of_char c :: nat) \<in> set [9, 10, 11, 12, 13, 28, 29, 30, 31, 32])"

definition digit_of :: "char \<Rightarrow> nat option" where
  "digit_of c = (let n = (of_char c :: nat) in
                 if 48 \<le> n \<and> n \<le> 57 then Some (n - 48) else None)"

fun digits_value :: "nat \<Rightarrow> string \<Rightarrow> nat option" where
  "digits_value acc [] = Some acc"
| "digits_value acc [c] = map_option (\<lambda>v. 10 * acc + v) (digit_of c)"
| "digits_value acc (c # d # ds) =
     (if c = CHR ''_'' then
        (case digit_of d of None \<Rightarrow> None | Some v \<Rightarrow> digits_value (10 * acc + v) ds)
      else
        (case digit_of c of None \<Rightarrow> None | Some v \<Rightarrow> digits_value (10 * acc + v) (d # ds)))"

definition decimal_literal :: "string \<Rightarrow> nat option" where
  "decimal_literal s =
     (case s of
        [] \<Rightarrow> None
      | c # cs \<Rightarrow> (case digit_of c of None \<Rightarrow> None | Some v \<Rightarrow> digits_value v cs))"

definition py_strip :: "string \<Rightarrow> string" where
  "py_strip s = rev (dropWhile py_isspace (rev (dropWhile py_isspace s)))"

definition int_of_str :: "string \<Rightarrow> int option" where
  "int_of_str s =
     (case py_strip s of
        [] \<Rightarrow> None
      | c # cs \<Rightarrow>
          if c = CHR ''-'' then map_option (\<lambda>n. - int n) (decimal_literal cs)
          else if c = CHR ''+'' then map_option int (decimal_literal cs)
          else map_option int (decimal_literal (c # cs)))"

fun py_int :: "jvalue \<Rightarrow> error + int" where
  "py_int (JInt i) = Inr i"
| "py_int JNull = Inl TypeError"
| "py_int (JStr s) = (case int_of_str s of None \<Rightarrow> Inl ValueError | Some i \<Rightarrow> Inr i)"

text \<open>
  A \<open>datetime\<close> holds the seconds from 0001-01-01 00:00:00 to 9999-12-31 23:59:59, here
  counted from the epoch. \<open>t + timedelta(seconds=d)\<close> raises \<open>OverflowError\<close> when the
  sum leaves that range.
\<close>

definition datetime_min :: int where
  "datetime_min = - 62135596800"

definition datetime_max :: int where
  "datetime_max = 253402300799"

definition add_seconds :: "int \<Rightarrow> int \<Rightarrow> error + int" where
  "add_seconds t d =
     (if datetime_min \<le> t + d \<and> t + d \<le> datetime_max then Inr (t + d) else Inl OverflowError)"

section \<open>The token library (python-jose), as the program uses it\<close>

text \<open>
  The program signs with a shared secret, so the model covers the HMAC algorithms. The
  library refuses as an HMAC secret a key that contains the marker of a public key or a
  certificate. For any other algorithm name the model has the library refuse the key, as it
  does for a name it does not support and for an asymmetric algorithm whose key is not a
  PEM key; a \<open>secret_key\<close> that holds a PEM key for an asymmetric algorithm is not
  modelled.
\<close>

definition hmac_algorithms :: "string list" where
  "hmac_algorithms = [''HS256'', ''HS384'', ''HS512'']"

definition asymmetric_markers :: "string list" where
  "asymmetric_markers =
     [''-----BEGIN PUBLIC KEY-----'', ''-----BEGIN RSA PUBLIC KEY-----'',
      ''-----BEGIN CERTIFICATE-----'', ''ssh-rsa'']"

text \<open>\<open>m in s\<close> for strings.\<close>

fun occurs_in :: "string \<Rightarrow> string \<Rightarrow> bool" where
  "occurs_in m [] = (m = [])"
| "occurs_in m (c # cs) = (if take (length m) (c # cs) = m then True else occurs_in m cs)"

definition signs_with :: "string \<Rightarrow> string \<Rightarrow> bool" where
  "signs_with algo key =
     (if algo \<in> set hmac_algorithms
      then (if list_ex (\<lambda>m. occurs_in m key) asymmetric_markers then False else True)
      else False)"

text \<open>
  Before it verifies a signature the library tries to read the key as a JSON document (a
  set of keys) and takes the key as it is when that fails. The model takes every key as it
  is: it covers the keys that are not JSON documents. A key whose first character after
  leading whitespace cannot begin a JSON value is never one; \<open>modelled_config\<close> are the
  configurations with such a secret that the library signs with.
\<close>

definition json_start :: "char \<Rightarrow> bool" where
  "json_start c = (c \<in> set ''\"[{-0123456789tfnNI'')"

definition opaque_secret :: "string \<Rightarrow> bool" where
  "opaque_secret key =
     (case dropWhile (\<lambda>c. c \<in> set [CHR '' '', CHR 0x09, CHR 0x0A, CHR 0x0D]) key of
        [] \<Rightarrow> True
      | c # _ \<Rightarrow> (if json_start c then False else True))"

definition modelled_config :: "settings \<Rightarrow> bool" where
  "modelled_config cfg =
     (if signs_with (algorithm cfg) (secret_key cfg) then opaque_secret (secret_key cfg)
      else False)"

text \<open>\<open>jwt.encode(claims, key, algorithm)\<close>: signs the claims as they are, or raises
  \<open>JWSError\<close>.\<close>

definition jwt_encode :: "claims \<Rightarrow> string \<Rightarrow> string \<Rightarrow> error + token" where
  "jwt_encode to_encode key algo =
     (if signs_with algo key then Inr (JWS algo to_encode key to_encode) else Inl JWSError)"

text \<open>A time claim, when present, goes through \<open>int\<close>: its \<open>ValueError\<close> becomes
  \<open>JWTClaimsError\<close>, its \<open>TypeError\<close> is not caught.\<close>

definition int_claim :: "string \<Rightarrow> claims \<Rightarrow> raised + int option" where
  "int_claim name payload =
     (case map_of payload name of
        None \<Rightarrow> Inr None
      | Some v \<Rightarrow>
          (case py_int v of
             Inr i \<Rightarrow> Inr (Some i)
           | Inl e \<Rightarrow> if e = ValueError then Inl (Jose JWTClaimsError) else Inl (Other e)))"

text \<open>A claim that must be a string when present (\<open>sub\<close>, \<open>jti\<close>).\<close>

definition str_claim_ok :: "string \<Rightarrow> claims \<Rightarrow> bool" where
  "str_claim_ok name payload =
     (case map_of payload name of None \<Rightarrow> True | Some (JStr _) \<Rightarrow> True | Some _ \<Rightarrow> False)"

text \<open>
  The claim checks of \<open>jwt.decode\<close> with its default options and no audience, issuer,
  subject or access token given, in the library's order: \<open>iat\<close> is an integer; \<open>nbf\<close>
  is an integer not after the clock; \<open>exp\<close> is an integer not before the clock; an
  \<open>aud\<close> claim never matches the absent audience; \<open>iss\<close> is not looked at; \<open>sub\<close>
  and \<open>jti\<close> are strings; an \<open>at_hash\<close> claim has no access token to be compared with.
\<close>

definition validate_claims :: "claims \<Rightarrow> int \<Rightarrow> raised + claims" where
  "validate_claims payload now =
     (case int_claim ''iat'' payload of
        Inl r \<Rightarrow> Inl r
      | Inr _ \<Rightarrow>
     (case int_claim ''nbf'' payload of
        Inl r \<Rightarrow> Inl r
      | Inr nbf \<Rightarrow>
          if (case nbf of Some n \<Rightarrow> now < n | None \<Rightarrow> False) then Inl (Jose JWTClaimsError)
          else
     (case int_claim ''exp'' payload of
        Inl r \<Rightarrow> Inl r
      | Inr ex \<Rightarrow>
          if (case ex of Some e \<Rightarrow> e < now | None \<Rightarrow> False) then Inl (Jose ExpiredSignatureError)
          else if map_of payload ''aud'' = None then
            if str_claim_ok ''sub'' payload then
              if str_claim_ok ''jti'' payload then
                if map_of payload ''at_hash'' = None then Inr payload
                else Inl (Jose JWTClaimsError)
              else Inl (Jose JWTClaimsError)
            else Inl (Jose JWTClaimsError)
          else Inl (Jose JWTClaimsError))))"

text \<open>
  \<open>jwt.decode(token, key, algorithms)\<close> at clock reading \<open>now\<close> (whole seconds). A
  string that is not a token, an algorithm outside \<open>algorithms\<close> and a signature that
  does not verify are each a \<open>JWTError\<close>; a key that the library refuses for the
  algorithm is a \<open>JWKError\<close>, which is not of that family.
\<close>

definition jwt_decode :: "token \<Rightarrow> string \<Rightarrow> string list \<Rightarrow> int \<Rightarrow> raised + claims" where
  "jwt_decode tok key algorithms now =
     (case tok of
        Malformed _ \<Rightarrow> Inl (Jose JWTError)
      | JWS algo payload k signed \<Rightarrow>
          if algo \<in> set algorithms then
            if signs_with algo key then
              if k = key \<and> signed = payload then validate_claims payload now
              else Inl (Jose JWTError)
            else Inl (Other JWKError)
          else Inl (Jose JWTError))"

section \<open>services/auth.py: the token codec\<close>

text \<open>
  \<open>now\<close> is \<open>datetime.utcnow()\<close> in whole seconds, \<open>expires_delta\<close> a whole number of
  seconds or \<open>None\<close>. \<open>if expires_delta:\<close> is false for \<open>None\<close> and for zero. The sum
  with the \<open>timedelta\<close> raises \<open>OverflowError\<close> outside the range of \<open>datetime\<close>, and
  \<open>jwt.encode\<close> raises \<open>JWSError\<close>; neither is caught.
\<close>

definition create_access_token :: "settings \<Rightarrow> int \<Rightarrow> claims \<Rightarrow> int option \<Rightarrow> error + token" where
  "create_access_token cfg now data expires_delta =
     (case (case expires_delta of
              Some d \<Rightarrow> if d \<noteq> 0 then add_seconds now d else add_seconds now (15 * 60)
            | None \<Rightarrow> add_seconds now (15 * 60)) of
        Inl e \<Rightarrow> Inl e
      | Inr expire \<Rightarrow>
          jwt_encode
            (AList.update ''scope'' (JStr ''access_token'')
              (AList.update ''exp'' (JInt expire)
                (AList.update ''iat'' (JInt now) data)))
            (secret_key cfg) (algorithm cfg))"

definition create_refresh_token :: "settings \<Rightarrow> int \<Rightarrow> claims \<Rightarrow> int option \<Rightarrow> error + token" where
  "create_refresh_token cfg now data expires_delta =
     (case (case expires_delta of
              Some d \<Rightarrow> if d \<noteq> 0 then add_seconds now d else add_seconds now (7 * 86400)
            | None \<Rightarrow> add_seconds now (7 * 86400)) of
        Inl e \<Rightarrow> Inl e
      | Inr expire \<Rightarrow>
          jwt_encode
            (AList.update ''scope'' (JStr ''refresh_token'')
              (AList.update ''exp'' (JInt expire)
                (AList.update ''iat'' (JInt now) data)))
            (secret_key cfg) (algorithm cfg))"

definition create_email_token :: "settings \<Rightarrow> int \<Rightarrow> claims \<Rightarrow> error + token" where
  "create_email_token cfg now data =
     (case add_seconds now (7 * 86400) of
        Inl e \<Rightarrow> Inl e
      | Inr expire \<Rightarrow>
          jwt_encode
            (AList.update ''exp'' (JInt expire)
              (AList.update ''iat'' (JInt now) data))
            (secret_key cfg) (algorithm cfg))"

text \<open>\<open>decode_refresh_token\<close>: the \<open>HTTPException\<close> raised inside the \<open>try\<close> is not a
  \<open>JWTError\<close> and leaves it; so does the \<open>KeyError\<close> of a missing key.\<close>

definition decode_refresh_token :: "settings \<Rightarrow> int \<Rightarrow> token \<Rightarrow> error + jvalue" where
  "decode_refresh_token cfg now refresh_tok =
     (case jwt_decode refresh_tok (secret_key cfg) [algorithm cfg] now of
        Inl (Jose _) \<Rightarrow> Inl (HTTPException 401 ''Could not validate credentials'')
      | Inl (Other e) \<Rightarrow> Inl e
      | Inr payload \<Rightarrow>
          (case map_of payload ''scope'' of
             None \<Rightarrow> Inl (KeyError ''scope'')
           | Some sc \<Rightarrow>
               if sc = JStr ''refresh_token'' then
                 (case map_of payload ''sub'' of
                    None \<Rightarrow> Inl (KeyError ''sub'')
                  | Some email \<Rightarrow> Inr email)
               else Inl (HTTPException 401 ''Invalid scope for token'')))"

text \<open>The \<open>try\<close> block of \<open>get_current_user\<close> (the decoding of the access token).\<close>

definition credentials_exception :: error where
  "credentials_exception = HTTPException 401 ''Could not validate credentials''"

definition get_current_user_decode :: "settings \<Rightarrow> int \<Rightarrow> token \<Rightarrow> error + jvalue" where
  "get_current_user_decode cfg now tok =
     (case jwt_decode tok (secret_key cfg) [algorithm cfg] now of
        Inl (Jose _) \<Rightarrow> Inl credentials_exception
      | Inl (Other e) \<Rightarrow> Inl e
      | Inr payload \<Rightarrow>
          (case map_of payload ''scope'' of
             None \<Rightarrow> Inl (KeyError ''scope'')
           | Some sc \<Rightarrow>
               if sc = JStr ''access_token'' then
                 (case map_of payload ''sub'' of
                    None \<Rightarrow> Inl (KeyError ''sub'')
                  | Some email \<Rightarrow>
                      if email = JNull then Inl credentials_exception else Inr email)
               else Inl credentials_exception))"

definition get_email_from_token :: "settings \<Rightarrow> int \<Rightarrow> token \<Rightarrow> error + jvalue" where
  "get_email_from_token cfg now tok =
     (case jwt_decode tok (secret_key cfg) [algorithm cfg] now of
        Inl (Jose _) \<Rightarrow> Inl (HTTPException 422 ''Invalid token for email verification'')
      | Inl (Other e) \<Rightarrow> Inl e
      | Inr payload \<Rightarrow>
          (case map_of payload ''sub'' of
             None \<Rightarrow> Inl (KeyError ''sub'')
           | Some email \<Rightarrow> Inr email))"


section \<open>The password context (passlib), as the program uses it\<close>

text \<open>
  \<open>CryptContext(schemes=["bcrypt"]).verify(secret, hash)\<close> first identifies the scheme of
  the hash, by the prefixes of bcrypt, and raises \<open>UnknownHashError\<close> for a string it
  cannot identify; an identified hash goes to the bcrypt handler. The handler's own
  computation is outside the model: it is the parameter \<open>handler\<close>, which returns a
  boolean or raises.
\<close>

definition bcrypt_identify :: "string \<Rightarrow> bool" where
  "bcrypt_identify h =
     list_ex (\<lambda>ident. take (length ident) h = ident)
       [''$2$'', ''$2a$'', ''$2x$'', ''$2y$'', ''$2b$'']"

definition pwd_context_verify ::
  "(string \<Rightarrow> string \<Rightarrow> error + bool) \<Rightarrow> string \<Rightarrow> string \<Rightarrow> error + bool" where
  "pwd_context_verify handler secret h =
     (if bcrypt_identify h then handler secret h else Inl UnknownHashError)"

definition verify_password ::
  "(string \<Rightarrow> string \<Rightarrow> error + bool) \<Rightarrow> string \<Rightarrow> string \<Rightarrow> error + bool" where
  "verify_password handler plain_password hashed_password =
     pwd_context_verify handler plain_password hashed_password"

section \<open>The user directory and the identity cache\<close>

text \<open>
  Modelled from the spec: the \<open>User\<close> class of \<open>src/database/models.py\<close>, which is not
  among the sources; the fields are those the spec lists for UserIdentity and the routes
  read and write.
\<close>

record user =
  user_id :: nat
  username :: string
  email :: string
  password :: string
  avatar :: "string option"
  refresh_token :: "token option"
  confirmed :: bool

text \<open>The calls that leave the process, in the order they are made.\<close>

datatype event =
    DbQuery jvalue
  | DbCommit
  | CacheGet string
  | CacheSet string
  | CacheExpire string int
  | SendEmail string string

text \<open>
  The state outside the process: the rows of the users table, the cache (a key holds a
  pickled user and, once \<open>expire\<close> has run, the second at which it disappears), and the
  calls made so far.
\<close>

record world =
  users :: "user list"
  cache :: "string \<rightharpoonup> user \<times> int option"
  trace :: "event list"

text \<open>
  What one statement on the cache client does. \<open>Completes\<close>: the command runs and the
  statement finishes. \<open>Fails e\<close>: the command raises \<open>e\<close> without effect (the
  server cannot be reached). \<open>DoneThenRaises e\<close>: the command runs and the statement
  then raises \<open>e\<close>; this is \<open>await\<close> applied to the plain value that a command of the
  synchronous client \<open>redis.Redis\<close> returns, which raises \<open>TypeError\<close>.
\<close>

datatype outcome = Completes | Fails error | DoneThenRaises error

record env =
  get_out :: outcome
  set_out :: outcome
  expire_out :: outcome

definition record_event :: "event \<Rightarrow> world \<Rightarrow> world" where
  "record_event ev w = w\<lparr>trace := trace w @ [ev]\<rparr>"

subsection \<open>repository/users.py\<close>

text \<open>\<open>db.query(User).filter(User.email == email).first()\<close>.\<close>

definition get_user_by_email :: "jvalue \<Rightarrow> world \<Rightarrow> user option \<times> world" where
  "get_user_by_email e w =
     (find (\<lambda>u. JStr (email u) = e) (users w), record_event (DbQuery e) w)"

text \<open>\<open>user.refresh_token = token; db.commit()\<close>: the row of this user (its primary
  key) takes the new value.\<close>

definition update_token :: "user \<Rightarrow> token option \<Rightarrow> world \<Rightarrow> world" where
  "update_token u tok w =
     record_event DbCommit
       (w\<lparr>users := map (\<lambda>r. if user_id r = user_id u then r\<lparr>refresh_token := tok\<rparr> else r)
                       (users w)\<rparr>)"

subsection \<open>The cache client\<close>

fun digits :: "nat \<Rightarrow> string" where
  "digits n = (if n < 10 then [char_of (48 + n)]
               else digits (n div 10) @ [char_of (48 + n mod 10)])"

text \<open>\<open>str(v)\<close>, as the f-string \<open>f"user:{email}"\<close> applies it.\<close>

fun py_str :: "jvalue \<Rightarrow> string" where
  "py_str (JStr s) = s"
| "py_str (JInt i) = (if i < 0 then ''-'' @ digits (nat (- i)) else digits (nat i))"
| "py_str JNull = ''None''"

definition user_key :: "jvalue \<Rightarrow> string" where
  "user_key e = ''user:'' @ py_str e"

text \<open>\<open>r.get(key)\<close> at second \<open>now\<close>: the value, unless the key is absent or its
  time to live has run out.\<close>

definition cache_get :: "int \<Rightarrow> string \<Rightarrow> world \<Rightarrow> user option" where
  "cache_get now key w =
     (case cache w key of
        None \<Rightarrow> None
      | Some (u, None) \<Rightarrow> Some u
      | Some (u, Some deadline) \<Rightarrow> if now < deadline then Some u else None)"

text \<open>\<open>r.set(key, value)\<close>: overwrites the value and drops any time to live.\<close>

definition cache_set :: "string \<Rightarrow> user \<Rightarrow> world \<Rightarrow> world" where
  "cache_set key u w = w\<lparr>cache := (cache w)(key \<mapsto> (u, None))\<rparr>"

text \<open>\<open>r.expire(key, seconds)\<close> at second \<open>now\<close>.\<close>

definition cache_expire :: "int \<Rightarrow> string \<Rightarrow> int \<Rightarrow> world \<Rightarrow> world" where
  "cache_expire now key seconds w =
     (case cache_get now key w of
        None \<Rightarrow> w
      | Some u \<Rightarrow> w\<lparr>cache := (cache w)(key \<mapsto> (u, Some (now + seconds)))\<rparr>)"

section \<open>services/auth.py: resolving the current user\<close>

definition get_current_user ::
  "settings \<Rightarrow> int \<Rightarrow> env \<Rightarrow> token \<Rightarrow> world \<Rightarrow> (error + user) \<times> world" where
  "get_current_user cfg now ev tok w =
     (case get_current_user_decode cfg now tok of
        Inl e \<Rightarrow> (Inl e, w)
      | Inr email_v \<Rightarrow>
          let key = user_key email_v; w1 = record_event (CacheGet key) w in
          (case get_out ev of
             Fails e \<Rightarrow> (Inl e, w1)
           | DoneThenRaises e \<Rightarrow> (Inl e, w1)
           | Completes \<Rightarrow>
               (case cache_get now key w1 of
                  Some cached \<Rightarrow> (Inr cached, w1)
                | None \<Rightarrow>
                    (case get_user_by_email email_v w1 of
                       (None, w2) \<Rightarrow> (Inl credentials_exception, w2)
                     | (Some u, w2) \<Rightarrow>
                         let w3 = record_event (CacheSet key) w2 in
                         (case set_out ev of
                            Fails e \<Rightarrow> (Inl e, w3)
                          | DoneThenRaises e \<Rightarrow> (Inl e, cache_set key u w3)
                          | Completes \<Rightarrow>
                              let w4 = cache_set key u w3;
                                  w5 = record_event (CacheExpire key 900) w4 in
                              (case expire_out ev of
                                 Fails e \<Rightarrow> (Inl e, w5)
                               | DoneThenRaises e \<Rightarrow> (Inl e, cache_expire now key 900 w5)
                               | Completes \<Rightarrow> (Inr u, cache_expire now key 900 w5)))))))"

section \<open>routes/auth.py\<close>

definition login ::
  "(string \<Rightarrow> string \<Rightarrow> error + bool) \<Rightarrow> settings \<Rightarrow> int \<Rightarrow> string \<Rightarrow> string \<Rightarrow> world
     \<Rightarrow> (error + token \<times> token \<times> string) \<times> world" where
  "login handler cfg now body_username body_password w =
     (case get_user_by_email (JStr body_username) w of
        (None, w1) \<Rightarrow> (Inl (HTTPException 401 ''Invalid email''), w1)
      | (Some u, w1) \<Rightarrow>
          if \<not> confirmed u then (Inl (HTTPException 401 ''Email not confirmed''), w1)
          else (case verify_password handler body_password (password u) of
                  Inl e \<Rightarrow> (Inl e, w1)
                | Inr ok \<Rightarrow>
                    if \<not> ok then (Inl (HTTPException 401 ''Invalid password''), w1)
                    else
                      (case create_access_token cfg now [(''sub'', JStr (email u))] None of
                         Inl e \<Rightarrow> (Inl e, w1)
                       | Inr access_tok \<Rightarrow>
                           (case create_refresh_token cfg now [(''sub'', JStr (email u))] None of
                              Inl e \<Rightarrow> (Inl e, w1)
                            | Inr refresh_tok \<Rightarrow>
                                (Inr (access_tok, refresh_tok, ''bearer''),
                                 update_token u (Some refresh_tok) w1)))))"

text \<open>The route \<open>refresh_token\<close> (the name is taken by the field of \<open>user\<close>).
  \<open>user.refresh_token\<close> on \<open>None\<close> raises \<open>AttributeError\<close>.\<close>

definition refresh_token_route ::
  "settings \<Rightarrow> int \<Rightarrow> token \<Rightarrow> world \<Rightarrow> (error + token \<times> token \<times> string) \<times> world" where
  "refresh_token_route cfg now tok w =
     (case decode_refresh_token cfg now tok of
        Inl e \<Rightarrow> (Inl e, w)
      | Inr email_v \<Rightarrow>
          (case get_user_by_email email_v w of
             (None, w1) \<Rightarrow> (Inl (AttributeError ''refresh_token''), w1)
           | (Some u, w1) \<Rightarrow>
               if refresh_token u \<noteq> Some tok then
                 (Inl (HTTPException 401 ''Invalid refresh token''), update_token u None w1)
               else
                 (case create_access_token cfg now [(''sub'', email_v)] None of
                    Inl e \<Rightarrow> (Inl e, w1)
                  | Inr access_tok \<Rightarrow>
                      (case create_refresh_token cfg now [(''sub'', email_v)] None of
                         Inl e \<Rightarrow> (Inl e, w1)
                       | Inr refresh_tok \<Rightarrow>
                           (Inr (access_tok, refresh_tok, ''bearer''),
                            update_token u (Some refresh_tok) w1)))))"


text \<open>\<open>request_email\<close>: \<open>user.confirmed\<close> is read before \<open>if user:\<close>.\<close>

definition request_email :: "string \<Rightarrow> world \<Rightarrow> (error + string) \<times> world" where
  "request_email body_email w =
     (case get_user_by_email (JStr body_email) w of
        (None, w1) \<Rightarrow> (Inl (AttributeError ''confirmed''), w1)
      | (Some u, w1) \<Rightarrow>
          if confirmed u then (Inr ''Your email is already confirmed'', w1)
          else (Inr ''Check your email for confirmation.'',
                record_event (SendEmail (email u) (username u)) w1))"

text \<open>The failure kinds of the spec, as the responses the routes raise.\<close>

definition RevokedToken :: error where
  "RevokedToken = HTTPException 401 ''Invalid refresh token''"

definition EmailNotConfirmed :: error where
  "EmailNotConfirmed = HTTPException 401 ''Email not confirmed''"

definition db_queries :: "world \<Rightarrow> nat" where
  "db_queries w = length (filter (\<lambda>ev. case ev of DbQuery _ \<Rightarrow> True | _ \<Rightarrow> False) (trace w))"

definition cache_writes :: "world \<Rightarrow> nat" where
  "cache_writes w = length (filter (\<lambda>ev. case ev of CacheSet _ \<Rightarrow> True | _ \<Rightarrow> False) (trace w))"

section \<open>Example data\<close>

definition example_cfg :: settings where
  "example_cfg = \<lparr>secret_key = ''secret'', algorithm = ''HS256''\<rparr>"

definition alice :: user where
  "alice = \<lparr>user_id = 1, username = ''alice'', email = ''a@x.com'',
            password = ''$2b$12$abcdefghijklmnopqrstuv'', avatar = None,
            refresh_token = None, confirmed = False\<rparr>"

definition bob :: user where
  "bob = \<lparr>user_id = 2, username = ''bobby'', email = ''b@x.com'',
          password = ''$2b$12$zyxwvutsrqponmlkjihgfe'', avatar = None,
          refresh_token = Some (Malformed ''old''), confirmed = True\<rparr>"

definition example_world :: world where
  "example_world = \<lparr>users = [alice, bob], cache = Map.empty, trace = []\<rparr>"

text \<open>A handler that accepts every password.\<close>

definition accept_all :: "string \<Rightarrow> string \<Rightarrow> error + bool" where
  "accept_all secret h = Inr True"

text \<open>The client as the program builds it, the synchronous \<open>redis.Redis\<close>: \<open>r.get\<close> is
  called plainly, and the awaited \<open>r.set\<close> runs and then raises \<open>TypeError\<close>.\<close>

definition sync_client :: env where
  "sync_client = \<lparr>get_out = Completes, set_out = DoneThenRaises TypeError,
                   expire_out = DoneThenRaises TypeError\<rparr>"

text \<open>The server drops the connection between the read and the write.\<close>

definition set_unreachable :: env where
  "set_unreachable = \<lparr>get_out = Completes, set_out = Fails RedisError, expire_out = Completes\<rparr>"

text \<open>The server cannot be reached at all.\<close>

definition cache_unreachable :: env where
  "cache_unreachable = \<lparr>get_out = Fails RedisError, set_out = Fails RedisError,
                         expire_out = Fails RedisError\<rparr>"

text \<open>A refresh token whose claims were changed after it was signed.\<close>

definition tampered_token :: token where
  "tampered_token =
     JWS ''HS256''
       [(''sub'', JStr ''b@x.com''), (''iat'', JInt 100), (''exp'', JInt 604900),
        (''scope'', JStr ''refresh_token'')]
       ''secret''
       [(''sub'', JStr ''a@x.com''), (''iat'', JInt 100), (''exp'', JInt 604900),
        (''scope'', JStr ''refresh_token'')]"

text \<open>The tokens that the program issues at second 100 under \<open>example_cfg\<close>.\<close>

definition access_claims :: "string \<Rightarrow> claims" where
  "access_claims s = [(''sub'', JStr s), (''iat'', JInt 100), (''exp'', JInt 1000),
                      (''scope'', JStr ''access_token'')]"

definition refresh_claims :: "string \<Rightarrow> claims" where
  "refresh_claims s = [(''sub'', JStr s), (''iat'', JInt 100), (''exp'', JInt 604900),
                       (''scope'', JStr ''refresh_token'')]"

definition confirmation_claims :: "string \<Rightarrow> claims" where
  "confirmation_claims s = [(''sub'', JStr s), (''iat'', JInt 100), (''exp'', JInt 604900)]"

definition alice_access :: token where
  "alice_access = JWS ''HS256'' (access_claims ''a@x.com'') ''secret'' (access_claims ''a@x.com'')"

definition alice_confirmation :: token where
  "alice_confirmation =
     JWS ''HS256'' (confirmation_claims ''a@x.com'') ''secret'' (confirmation_claims ''a@x.com'')"

definition bob_access :: token where
  "bob_access = JWS ''HS256'' (access_claims ''b@x.com'') ''secret'' (access_claims ''b@x.com'')"

definition bob_refresh :: token where
  "bob_refresh = JWS ''HS256'' (refresh_claims ''b@x.com'') ''secret'' (refresh_claims ''b@x.com'')"

definition stranger_access :: token where
  "stranger_access =
     JWS ''HS256'' (access_claims ''c@x.com'') ''secret'' (access_claims ''c@x.com'')"

definition stranger_refresh :: token where
  "stranger_refresh =
     JWS ''HS256'' (refresh_claims ''c@x.com'') ''secret'' (refresh_claims ''c@x.com'')"

text \<open>Whether the command of a cache statement reaches the server and takes effect.\<close>

fun command_runs :: "outcome \<Rightarrow> bool" where
  "command_runs Completes = True"
| "command_runs (Fails e) = False"
| "command_runs (DoneThenRaises e) = True"

section \<open>Auxiliary facts\<close>

lemmas codec_defs =
  create_access_token_def create_refresh_token_def create_email_token_def jwt_encode_def
  jwt_decode_def validate_claims_def int_claim_def str_claim_ok_def add_seconds_def
  decode_refresh_token_def get_current_user_decode_def get_email_from_token_def

lemmas example_defs =
  example_cfg_def example_world_def alice_def bob_def access_claims_def refresh_claims_def
  confirmation_claims_def alice_access_def alice_confirmation_def bob_access_def
  bob_refresh_def stranger_access_def stranger_refresh_def tampered_token_def accept_all_def
  sync_client_def set_unreachable_def cache_unreachable_def

lemma signs_with_example: "signs_with ''HS256'' ''secret''"
  by (simp add: signs_with_def hmac_algorithms_def asymmetric_markers_def)

lemma modelled_example: "modelled_config example_cfg"
  by (simp add: modelled_config_def opaque_secret_def json_start_def example_cfg_def
      signs_with_example)

lemma modelled_signs: "modelled_config cfg \<Longrightarrow> signs_with (algorithm cfg) (secret_key cfg)"
  by (simp add: modelled_config_def split: if_splits)

lemma find_map_pres:
  "(\<And>x. P (f x) = P x) \<Longrightarrow> find P (map f xs) = map_option f (find P xs)"
  by (induction xs) auto

lemma cache_get_record_event [simp]: "cache_get now k (record_event ev w) = cache_get now k w"
  by (simp add: cache_get_def record_event_def)

lemma users_record_event [simp]: "users (record_event ev w) = users w"
  by (simp add: record_event_def)

lemma trace_record_event [simp]: "trace (record_event ev w) = trace w @ [ev]"
  by (simp add: record_event_def)

lemma lookup_record_event [simp]:
  "fst (get_user_by_email e (record_event ev w)) = fst (get_user_by_email e w)"
  by (simp add: get_user_by_email_def)

lemma cache_get_after_set [simp]: "cache_get t k (cache_set k u w) = Some u"
  by (simp add: cache_get_def cache_set_def)

lemma cache_get_after_set_expire:
  "t < now + n \<Longrightarrow>
   cache_get t k (cache_expire now k n (record_event ev (cache_set k u w))) = Some u"
  by (simp add: cache_get_def cache_set_def cache_expire_def record_event_def)

lemma db_queries_record_event:
  "db_queries (record_event ev w) = db_queries w + (case ev of DbQuery _ \<Rightarrow> 1 | _ \<Rightarrow> 0)"
  by (cases ev) (simp_all add: db_queries_def)

lemma cache_writes_record_event:
  "cache_writes (record_event ev w) = cache_writes w + (case ev of CacheSet _ \<Rightarrow> 1 | _ \<Rightarrow> 0)"
  by (cases ev) (simp_all add: cache_writes_def)

lemma db_queries_cache_set [simp]: "db_queries (cache_set k u w) = db_queries w"
  by (simp add: db_queries_def cache_set_def)

lemma db_queries_cache_expire [simp]: "db_queries (cache_expire now k n w) = db_queries w"
  by (simp add: db_queries_def cache_expire_def split: option.splits)

lemma cache_writes_cache_set [simp]: "cache_writes (cache_set k u w) = cache_writes w"
  by (simp add: cache_writes_def cache_set_def)

lemma cache_writes_cache_expire [simp]:
  "cache_writes (cache_expire now k n w) = cache_writes w"
  by (simp add: cache_writes_def cache_expire_def split: option.splits)

text \<open>A confirmation token issued by \<open>create_email_token\<close> is accepted by
  \<open>get_email_from_token\<close> for seven days.\<close>

lemma email_token_roundtrip:
  assumes "modelled_config cfg"
    and "datetime_min \<le> now" and "now + 7 * 86400 \<le> datetime_max"
    and "now' \<le> now + 7 * 86400"
  shows "\<exists>tok. create_email_token cfg now [(''sub'', JStr s)] = Inr tok
             \<and> get_email_from_token cfg now' tok = Inr (JStr s)"
  using assms modelled_signs [OF assms(1)] by (simp add: codec_defs datetime_min_def)

text \<open>A confirmation token carries no scope: both scoped decoders end in the
  \<open>KeyError\<close> of \<open>payload['scope']\<close>.\<close>

lemma email_token_has_no_scope:
  assumes "modelled_config cfg"
    and "datetime_min \<le> now" and "now + 7 * 86400 \<le> datetime_max"
    and "now' \<le> now + 7 * 86400"
  shows "\<exists>tok. create_email_token cfg now [(''sub'', JStr s)] = Inr tok
             \<and> decode_refresh_token cfg now' tok = Inl (KeyError ''scope'')
             \<and> get_current_user_decode cfg now' tok = Inl (KeyError ''scope'')"
  using assms modelled_signs [OF assms(1)] by (simp add: codec_defs datetime_min_def)

text \<open>The run of \<open>get_current_user\<close> on a cache miss with the user in the directory.\<close>

lemma miss_run:
  assumes "get_current_user_decode cfg now tok = Inr e"
    and "get_out ev = Completes"
    and "cache_get now (user_key e) w = None"
    and "fst (get_user_by_email e w) = Some u"
  shows "get_current_user cfg now ev tok w =
     (let key = user_key e;
          w3 = record_event (CacheSet key)
                 (record_event (DbQuery e) (record_event (CacheGet key) w))
      in case set_out ev of
           Fails err \<Rightarrow> (Inl err, w3)
         | DoneThenRaises err \<Rightarrow> (Inl err, cache_set key u w3)
         | Completes \<Rightarrow>
             (let w5 = record_event (CacheExpire key 900) (cache_set key u w3) in
              case expire_out ev of
                Fails err \<Rightarrow> (Inl err, w5)
              | DoneThenRaises err \<Rightarrow> (Inl err, cache_expire now key 900 w5)
              | Completes \<Rightarrow> (Inr u, cache_expire now key 900 w5)))"
proof -
  let ?w1 = "record_event (CacheGet (user_key e)) w"
  have "get_user_by_email e ?w1 = (Some u, record_event (DbQuery e) ?w1)"
    using assms(4) by (simp add: get_user_by_email_def)
  then show ?thesis
    using assms(1,2,3) by (simp add: get_current_user_def Let_def split: outcome.splits)
qed

text \<open>The run on a cache miss with no row for the subject.\<close>

lemma absent_run:
  assumes "get_current_user_decode cfg now tok = Inr e"
    and "get_out ev = Completes"
    and "cache_get now (user_key e) w = None"
    and "fst (get_user_by_email e w) = None"
  shows "get_current_user cfg now ev tok w =
           (Inl credentials_exception,
            record_event (DbQuery e) (record_event (CacheGet (user_key e)) w))"
proof -
  let ?w1 = "record_event (CacheGet (user_key e)) w"
  have "get_user_by_email e ?w1 = (None, record_event (DbQuery e) ?w1)"
    using assms(4) by (simp add: get_user_by_email_def)
  then show ?thesis
    using assms(1,2,3) by (simp add: get_current_user_def Let_def)
qed

text \<open>The run of \<open>get_current_user\<close> on a cache hit.\<close>

lemma hit_run:
  assumes "get_current_user_decode cfg now tok = Inr e"
    and "get_out ev = Completes"
    and "cache_get now (user_key e) w = Some u"
  shows "get_current_user cfg now ev tok w = (Inr u, record_event (CacheGet (user_key e)) w)"
  using assms by (simp add: get_current_user_def Let_def)

text \<open>The run when the cache read raises.\<close>

lemma read_failure_run:
  assumes "get_current_user_decode cfg now tok = Inr e"
    and "get_out ev = Fails err"
  shows "get_current_user cfg now ev tok w = (Inl err, record_event (CacheGet (user_key e)) w)"
  using assms by (simp add: get_current_user_def Let_def)

lemma miss_counts:
  assumes "get_current_user_decode cfg now tok = Inr e"
    and "get_out ev = Completes"
    and "cache_get now (user_key e) w = None"
    and "fst (get_user_by_email e w) = Some u"
  shows "db_queries (snd (get_current_user cfg now ev tok w)) = db_queries w + 1"
    and "cache_writes (snd (get_current_user cfg now ev tok w)) = cache_writes w + 1"
  by (simp_all add: miss_run [OF assms] Let_def db_queries_record_event
      cache_writes_record_event split: outcome.splits)

lemma miss_leaves_entry:
  assumes "get_current_user_decode cfg now tok = Inr e"
    and "get_out ev = Completes"
    and "cache_get now (user_key e) w = None"
    and "fst (get_user_by_email e w) = Some u"
    and "command_runs (set_out ev)"
    and "t < now + 900"
  shows "cache_get t (user_key e) (snd (get_current_user cfg now ev tok w)) = Some u"
  using assms(5,6)
  by (cases "set_out ev"; cases "expire_out ev")
     (simp_all add: miss_run [OF assms(1-4)] Let_def cache_get_after_set_expire)

text \<open>The example tokens and rows, evaluated.\<close>

lemma example_issue:
  "create_access_token example_cfg 100 [(''sub'', JStr ''a@x.com'')] None = Inr alice_access"
  "create_access_token example_cfg 100 [(''sub'', JStr ''b@x.com'')] None = Inr bob_access"
  "create_refresh_token example_cfg 100 [(''sub'', JStr ''b@x.com'')] None = Inr bob_refresh"
  "create_access_token example_cfg 100 [(''sub'', JStr ''c@x.com'')] None = Inr stranger_access"
  "create_refresh_token example_cfg 100 [(''sub'', JStr ''c@x.com'')] None = Inr stranger_refresh"
  "create_email_token example_cfg 100 [(''sub'', JStr ''a@x.com'')] = Inr alice_confirmation"
  by (simp_all add: codec_defs example_defs signs_with_example datetime_min_def datetime_max_def)

lemma example_library_results:
  "jwt_decode tampered_token (secret_key example_cfg) [algorithm example_cfg] 1000
     = Inl (Jose JWTError)"
  "jwt_decode bob_refresh (secret_key example_cfg) [algorithm example_cfg] 700000
     = Inl (Jose ExpiredSignatureError)"
  "jwt_decode bob_access (secret_key example_cfg) [algorithm example_cfg] 100
     = Inr (access_claims ''b@x.com'')"
  "jwt_decode bob_refresh (secret_key example_cfg) [algorithm example_cfg] 100
     = Inr (refresh_claims ''b@x.com'')"
  "jwt_decode alice_confirmation (secret_key example_cfg) [algorithm example_cfg] 100
     = Inr (confirmation_claims ''a@x.com'')"
  by (simp_all add: codec_defs example_defs signs_with_example)

lemma bob_refresh_decodes:
  "decode_refresh_token example_cfg 100 bob_refresh = Inr (JStr ''b@x.com'')"
  by (simp add: codec_defs example_defs signs_with_example)

lemma bob_access_decodes:
  "get_current_user_decode example_cfg t bob_access
     = (if 1000 < t then Inl credentials_exception else Inr (JStr ''b@x.com''))"
  by (simp add: codec_defs example_defs signs_with_example)

lemma stranger_refresh_decodes:
  "decode_refresh_token example_cfg 100 stranger_refresh = Inr (JStr ''c@x.com'')"
  by (simp add: codec_defs example_defs signs_with_example)

lemma stranger_access_decodes:
  "get_current_user_decode example_cfg t stranger_access
     = (if 1000 < t then Inl credentials_exception else Inr (JStr ''c@x.com''))"
  by (simp add: codec_defs example_defs signs_with_example)

lemma example_lookups:
  "fst (get_user_by_email (JStr ''a@x.com'') example_world) = Some alice"
  "fst (get_user_by_email (JStr ''b@x.com'') example_world) = Some bob"
  "fst (get_user_by_email (JStr ''c@x.com'') example_world) = None"
  by (simp_all add: get_user_by_email_def example_defs)

lemma example_cache_empty: "cache_get t k example_world = None"
  by (simp add: cache_get_def example_defs)

lemma example_counts: "db_queries example_world = 0" "cache_writes example_world = 0"
  by (simp_all add: db_queries_def cache_writes_def example_world_def)

section \<open>Refresh\<close>

text \<open>
  C1. A refresh call whose token decodes with scope refresh, for an identity whose stored
  refresh-token value differs from the presented token, fails with RevokedToken (401
  "Invalid refresh token"), returns no tokens, and leaves the stored value cleared: the
  directory then holds the same row with \<open>refresh_token = None\<close>.
\<close>

theorem refresh_mismatch_revokes:
  assumes "decode_refresh_token cfg now tok = Inr e"
    and "fst (get_user_by_email e w) = Some u"
    and "refresh_token u \<noteq> Some tok"
  shows "fst (refresh_token_route cfg now tok w) = Inl RevokedToken \<and>
         fst (get_user_by_email e (snd (refresh_token_route cfg now tok w)))
           = Some (u\<lparr>refresh_token := None\<rparr>)"
proof -
  obtain w1 where g: "get_user_by_email e w = (Some u, w1)"
    using assms(2) by (cases "get_user_by_email e w") simp
  have w1: "w1 = record_event (DbQuery e) w"
    using g by (simp add: get_user_by_email_def)
  have r: "refresh_token_route cfg now tok w =
            (Inl (HTTPException 401 ''Invalid refresh token''), update_token u None w1)"
    using assms(1,3) g by (simp add: refresh_token_route_def)
  have "fst (get_user_by_email e w1) = Some u"
    using assms(2) w1 by simp
  then have "fst (get_user_by_email e (update_token u None w1))
               = Some (u\<lparr>refresh_token := None\<rparr>)"
    by (simp add: get_user_by_email_def update_token_def record_event_def find_map_pres)
  with r show ?thesis by (simp add: RevokedToken_def)
qed

text \<open>C1 at an input: bob's stored value is an older token, and he presents a validly
  signed refresh token issued for him.\<close>

theorem refresh_mismatch_revokes_witness:
  "decode_refresh_token example_cfg 100 bob_refresh = Inr (JStr ''b@x.com'')
   \<and> fst (get_user_by_email (JStr ''b@x.com'') example_world) = Some bob
   \<and> refresh_token bob \<noteq> Some bob_refresh
   \<and> fst (refresh_token_route example_cfg 100 bob_refresh example_world) = Inl RevokedToken
   \<and> fst (get_user_by_email (JStr ''b@x.com'')
            (snd (refresh_token_route example_cfg 100 bob_refresh example_world)))
       = Some (bob\<lparr>refresh_token := None\<rparr>)"
proof -
  have h3: "refresh_token bob \<noteq> Some bob_refresh"
    by (simp add: codec_defs example_defs)
  from refresh_mismatch_revokes [OF bob_refresh_decodes example_lookups(2) h3]
    bob_refresh_decodes example_lookups(2) h3
  show ?thesis by blast
qed

text \<open>
  C9. A refresh call with a validly signed, unexpired refresh-scoped token whose subject
  has no row in the directory reads \<open>refresh_token\<close> of the absent (None) user: the call
  ends in the uncaught \<open>AttributeError\<close>, not in a failure response, after the one
  directory query.
\<close>

theorem refresh_absent_user:
  assumes "decode_refresh_token cfg now tok = Inr e"
    and "fst (get_user_by_email e w) = None"
  shows "refresh_token_route cfg now tok w =
           (Inl (AttributeError ''refresh_token''), record_event (DbQuery e) w)"
  using assms by (simp add: refresh_token_route_def get_user_by_email_def)

theorem refresh_absent_user_witness:
  "decode_refresh_token example_cfg 100 stranger_refresh = Inr (JStr ''c@x.com'')
   \<and> fst (get_user_by_email (JStr ''c@x.com'') example_world) = None
   \<and> refresh_token_route example_cfg 100 stranger_refresh example_world
       = (Inl (AttributeError ''refresh_token''),
          record_event (DbQuery (JStr ''c@x.com'')) example_world)"
  using refresh_absent_user [OF stranger_refresh_decodes example_lookups(3)]
    stranger_refresh_decodes example_lookups(3)
  by blast

section \<open>Login\<close>

text \<open>
  C2. A login on an account whose confirmed flag is false gives EmailNotConfirmed (401
  "Email not confirmed") whatever the password and whatever the password handler would
  answer or raise: the confirmed flag is tested before the password is verified, and
  the call does nothing but the one directory query.
\<close>

theorem login_unconfirmed:
  assumes "fst (get_user_by_email (JStr name) w) = Some u"
    and "\<not> confirmed u"
  shows "login handler cfg now name pw w =
           (Inl EmailNotConfirmed, record_event (DbQuery (JStr name)) w)"
  using assms
  by (simp add: login_def get_user_by_email_def EmailNotConfirmed_def split: prod.splits)

text \<open>C2 at an input: alice is unconfirmed and the handler accepts her password.\<close>

theorem login_unconfirmed_witness:
  "fst (get_user_by_email (JStr ''a@x.com'') example_world) = Some alice
   \<and> \<not> confirmed alice
   \<and> verify_password accept_all ''secret1'' (password alice) = Inr True
   \<and> login accept_all example_cfg 100 ''a@x.com'' ''secret1'' example_world
       = (Inl EmailNotConfirmed, record_event (DbQuery (JStr ''a@x.com'')) example_world)"
proof -
  have h2: "\<not> confirmed alice"
    by (simp add: alice_def)
  have h3: "verify_password accept_all ''secret1'' (password alice) = Inr True"
    by (simp add: verify_password_def pwd_context_verify_def bcrypt_identify_def
        accept_all_def alice_def)
  from login_unconfirmed [OF example_lookups(1) h2, of accept_all example_cfg 100 "''secret1''"]
    example_lookups(1) h2 h3
  show ?thesis by blast
qed

section \<open>Resending the confirmation\<close>

text \<open>
  C10. \<open>request_email\<close> with an email that has no registered user reads \<open>confirmed\<close>
  of the absent (None) user before the test \<open>if user\<close>: the call ends in the uncaught
  \<open>AttributeError\<close> and returns neither of its two messages.
\<close>

theorem request_email_absent_user:
  assumes "fst (get_user_by_email (JStr addr) w) = None"
  shows "request_email addr w =
           (Inl (AttributeError ''confirmed''), record_event (DbQuery (JStr addr)) w)"
  using assms by (simp add: request_email_def get_user_by_email_def)

theorem request_email_absent_user_witness:
  "fst (get_user_by_email (JStr ''c@x.com'') example_world) = None
   \<and> request_email ''c@x.com'' example_world
       = (Inl (AttributeError ''confirmed''),
          record_event (DbQuery (JStr ''c@x.com'')) example_world)"
  using request_email_absent_user [OF example_lookups(3)] example_lookups(3)
  by blast

section \<open>The token codec\<close>

text \<open>
  C4, as stated, fails: for a ttl of 10^12 seconds the expiry lies beyond the last second
  a \<open>datetime\<close> can hold, the sum raises \<open>OverflowError\<close> and no token is issued; and
  under an algorithm name that the library does not sign with, no token is issued for any
  ttl.
\<close>

theorem issue_fails_outside_datetime_range:
  "(0::int) < 1000000000000
   \<and> create_refresh_token example_cfg 100 [(''sub'', JStr ''a@x.com'')] (Some 1000000000000)
       = Inl OverflowError
   \<and> create_access_token example_cfg 100 [(''sub'', JStr ''a@x.com'')] (Some 1000000000000)
       = Inl OverflowError
   \<and> create_refresh_token (example_cfg\<lparr>algorithm := ''none''\<rparr>) 100
         [(''sub'', JStr ''a@x.com'')] (Some 60)
       = Inl JWSError"
  by (simp add: codec_defs example_defs signs_with_def hmac_algorithms_def datetime_min_def
      datetime_max_def)

text \<open>
  C4, amended. Under a configuration with an HMAC algorithm and a secret that the library
  takes as an opaque HMAC secret (\<open>modelled_config\<close>), at a clock reading \<open>now\<close> (a
  \<open>datetime\<close>), for every subject and every ttl > 0 in whole seconds: when the expiry
  \<open>now + ttl\<close> is within the range of \<open>datetime\<close>, a refresh token and an access token are issued, and decoding each with
  the matching expected scope at any time up to the expiry succeeds, returns the issued
  subject, and the claims carry the issued subject and the issued scope; when the expiry
  is beyond that range, issuing raises \<open>OverflowError\<close>.
\<close>

theorem issue_decode_roundtrip:
  assumes "0 < ttl"
    and "datetime_min \<le> now"
    and "modelled_config cfg"
  shows "(now + ttl \<le> datetime_max \<and> now' \<le> now + ttl \<longrightarrow>
            (\<exists>rt at.
               create_refresh_token cfg now [(''sub'', JStr s)] (Some ttl) = Inr rt
             \<and> create_access_token cfg now [(''sub'', JStr s)] (Some ttl) = Inr at
             \<and> decode_refresh_token cfg now' rt = Inr (JStr s)
             \<and> get_current_user_decode cfg now' at = Inr (JStr s)
             \<and> (\<exists>p. jwt_decode rt (secret_key cfg) [algorithm cfg] now' = Inr p
                    \<and> map_of p ''sub'' = Some (JStr s)
                    \<and> map_of p ''scope'' = Some (JStr ''refresh_token''))
             \<and> (\<exists>p. jwt_decode at (secret_key cfg) [algorithm cfg] now' = Inr p
                    \<and> map_of p ''sub'' = Some (JStr s)
                    \<and> map_of p ''scope'' = Some (JStr ''access_token''))))
       \<and> (datetime_max < now + ttl \<longrightarrow>
            create_refresh_token cfg now [(''sub'', JStr s)] (Some ttl) = Inl OverflowError
          \<and> create_access_token cfg now [(''sub'', JStr s)] (Some ttl) = Inl OverflowError)"
  using assms modelled_signs [OF assms(3)] by (simp add: codec_defs datetime_min_def)

text \<open>C4, amended, at inputs: a ttl of one minute, decoded half a minute later, and a
  ttl of 10^12 seconds.\<close>

theorem issue_decode_roundtrip_witness:
  "(0::int) < 60 \<and> datetime_min \<le> 100 \<and> modelled_config example_cfg
   \<and> (100::int) + 60 \<le> datetime_max \<and> (130::int) \<le> 100 + 60
   \<and> (\<exists>rt at.
         create_refresh_token example_cfg 100 [(''sub'', JStr ''a@x.com'')] (Some 60) = Inr rt
       \<and> create_access_token example_cfg 100 [(''sub'', JStr ''a@x.com'')] (Some 60) = Inr at
       \<and> decode_refresh_token example_cfg 130 rt = Inr (JStr ''a@x.com'')
       \<and> get_current_user_decode example_cfg 130 at = Inr (JStr ''a@x.com''))
   \<and> (0::int) < 1000000000000 \<and> datetime_max < 100 + 1000000000000
   \<and> create_refresh_token example_cfg 100 [(''sub'', JStr ''a@x.com'')] (Some 1000000000000)
       = Inl OverflowError"
proof -
  note u = modelled_example
  have m: "datetime_min \<le> 100"
    by (simp add: datetime_min_def)
  have a: "(0::int) < 60" and b: "(0::int) < 1000000000000"
    by simp_all
  have r: "(100::int) + 60 \<le> datetime_max \<and> (130::int) \<le> 100 + 60"
    and o: "datetime_max < 100 + 1000000000000"
    by (simp_all add: datetime_max_def)
  from issue_decode_roundtrip [OF a m u, of 130 "''a@x.com''"] r
  have first: "\<exists>rt at.
         create_refresh_token example_cfg 100 [(''sub'', JStr ''a@x.com'')] (Some 60) = Inr rt
       \<and> create_access_token example_cfg 100 [(''sub'', JStr ''a@x.com'')] (Some 60) = Inr at
       \<and> decode_refresh_token example_cfg 130 rt = Inr (JStr ''a@x.com'')
       \<and> get_current_user_decode example_cfg 130 at = Inr (JStr ''a@x.com'')"
    by blast
  from issue_decode_roundtrip [OF b m u, of 0 "''a@x.com''"] o
  have second:
    "create_refresh_token example_cfg 100 [(''sub'', JStr ''a@x.com'')] (Some 1000000000000)
       = Inl OverflowError"
    by blast
  from a m u r first b o second show ?thesis by blast
qed

text \<open>
  C3, as stated, fails: the token library tells a token whose claims were changed after
  signing (\<open>JWTError\<close>) from an expired one (\<open>ExpiredSignatureError\<close>), but
  \<open>decode_refresh_token\<close> gives the same failure for both, and the decoding in
  \<open>get_current_user\<close> gives one failure for a tampered token, an expired access token
  and a valid refresh token presented as an access token.
\<close>

theorem decode_conflates_signature_and_expiry:
  "create_refresh_token example_cfg 100 [(''sub'', JStr ''b@x.com'')] None = Inr bob_refresh
   \<and> create_access_token example_cfg 100 [(''sub'', JStr ''b@x.com'')] None = Inr bob_access
   \<and> jwt_decode tampered_token (secret_key example_cfg) [algorithm example_cfg] 700000
       = Inl (Jose JWTError)
   \<and> jwt_decode bob_refresh (secret_key example_cfg) [algorithm example_cfg] 700000
       = Inl (Jose ExpiredSignatureError)
   \<and> decode_refresh_token example_cfg 700000 tampered_token
       = decode_refresh_token example_cfg 700000 bob_refresh
   \<and> jwt_decode tampered_token (secret_key example_cfg) [algorithm example_cfg] 2000
       = Inl (Jose JWTError)
   \<and> jwt_decode bob_access (secret_key example_cfg) [algorithm example_cfg] 2000
       = Inl (Jose ExpiredSignatureError)
   \<and> jwt_decode bob_refresh (secret_key example_cfg) [algorithm example_cfg] 2000
       = Inr (refresh_claims ''b@x.com'')
   \<and> get_current_user_decode example_cfg 2000 tampered_token
       = get_current_user_decode example_cfg 2000 bob_access
   \<and> get_current_user_decode example_cfg 2000 bob_access
       = get_current_user_decode example_cfg 2000 bob_refresh"
  by (simp add: codec_defs example_defs signs_with_example datetime_min_def datetime_max_def)

text \<open>
  C3, amended. A token that the library rejects with a \<open>JWTError\<close>, badly signed and
  expired alike, gets 401 "Could not validate credentials" from \<open>decode_refresh_token\<close>
  and from the decoding in \<open>get_current_user\<close>. A validly signed, unexpired token that
  carries a scope other than the expected one gets the distinct 401 "Invalid scope for
  token" from \<open>decode_refresh_token\<close>, and from \<open>get_current_user\<close> the same 401 "Could
  not validate credentials" as the other two kinds. A validly signed, unexpired token that
  carries no scope field gets no failure kind: both decodings end in the uncaught
  \<open>KeyError\<close> of \<open>payload['scope']\<close>.
\<close>

theorem decode_failure_kinds:
  "(jwt_decode tok (secret_key cfg) [algorithm cfg] now = Inl (Jose err) \<longrightarrow>
      decode_refresh_token cfg now tok = Inl (HTTPException 401 ''Could not validate credentials'')
      \<and> get_current_user_decode cfg now tok
          = Inl (HTTPException 401 ''Could not validate credentials''))
   \<and> (jwt_decode tok (secret_key cfg) [algorithm cfg] now = Inr p
        \<and> map_of p ''scope'' = Some sc \<longrightarrow>
        (sc \<noteq> JStr ''refresh_token'' \<longrightarrow>
           decode_refresh_token cfg now tok = Inl (HTTPException 401 ''Invalid scope for token''))
        \<and> (sc \<noteq> JStr ''access_token'' \<longrightarrow>
           get_current_user_decode cfg now tok
             = Inl (HTTPException 401 ''Could not validate credentials'')))
   \<and> (jwt_decode tok (secret_key cfg) [algorithm cfg] now = Inr p
        \<and> map_of p ''scope'' = None \<longrightarrow>
        decode_refresh_token cfg now tok = Inl (KeyError ''scope'')
        \<and> get_current_user_decode cfg now tok = Inl (KeyError ''scope''))
   \<and> HTTPException 401 ''Invalid scope for token''
        \<noteq> HTTPException 401 ''Could not validate credentials''"
  by (simp add: decode_refresh_token_def get_current_user_decode_def credentials_exception_def)

text \<open>C3, amended, at inputs: a tampered token, an expired token, an access token given
  to the refresh decoding, a refresh token given to the access decoding, and the
  confirmation token that the program issues.\<close>

theorem decode_failure_kinds_witness:
  "jwt_decode tampered_token (secret_key example_cfg) [algorithm example_cfg] 1000
     = Inl (Jose JWTError)
   \<and> decode_refresh_token example_cfg 1000 tampered_token
       = Inl (HTTPException 401 ''Could not validate credentials'')
   \<and> get_current_user_decode example_cfg 1000 tampered_token
       = Inl (HTTPException 401 ''Could not validate credentials'')
   \<and> jwt_decode bob_refresh (secret_key example_cfg) [algorithm example_cfg] 700000
       = Inl (Jose ExpiredSignatureError)
   \<and> decode_refresh_token example_cfg 700000 bob_refresh
       = Inl (HTTPException 401 ''Could not validate credentials'')
   \<and> jwt_decode bob_access (secret_key example_cfg) [algorithm example_cfg] 100
       = Inr (access_claims ''b@x.com'')
   \<and> map_of (access_claims ''b@x.com'') ''scope'' = Some (JStr ''access_token'')
   \<and> decode_refresh_token example_cfg 100 bob_access
       = Inl (HTTPException 401 ''Invalid scope for token'')
   \<and> jwt_decode bob_refresh (secret_key example_cfg) [algorithm example_cfg] 100
       = Inr (refresh_claims ''b@x.com'')
   \<and> map_of (refresh_claims ''b@x.com'') ''scope'' = Some (JStr ''refresh_token'')
   \<and> get_current_user_decode example_cfg 100 bob_refresh
       = Inl (HTTPException 401 ''Could not validate credentials'')
   \<and> create_email_token example_cfg 100 [(''sub'', JStr ''a@x.com'')] = Inr alice_confirmation
   \<and> jwt_decode alice_confirmation (secret_key example_cfg) [algorithm example_cfg] 100
       = Inr (confirmation_claims ''a@x.com'')
   \<and> map_of (confirmation_claims ''a@x.com'') ''scope'' = None
   \<and> decode_refresh_token example_cfg 100 alice_confirmation = Inl (KeyError ''scope'')
   \<and> get_current_user_decode example_cfg 100 alice_confirmation = Inl (KeyError ''scope'')"
proof -
  have t: "jwt_decode tampered_token (secret_key example_cfg) [algorithm example_cfg] 1000
             = Inl (Jose JWTError)"
    by (simp add: codec_defs example_defs signs_with_example)
  note x = example_library_results(2)
  note a = example_library_results(3)
  note r = example_library_results(4)
  note c = example_library_results(5)
  have sa: "map_of (access_claims ''b@x.com'') ''scope'' = Some (JStr ''access_token'')"
    and sr: "map_of (refresh_claims ''b@x.com'') ''scope'' = Some (JStr ''refresh_token'')"
    and sc: "map_of (confirmation_claims ''a@x.com'') ''scope'' = None"
    by (simp_all add: access_claims_def refresh_claims_def confirmation_claims_def)
  have ne: "JStr ''access_token'' \<noteq> JStr ''refresh_token''"
    and ne': "JStr ''refresh_token'' \<noteq> JStr ''access_token''"
    by simp_all
  note k1 = decode_failure_kinds [where tok = tampered_token and cfg = example_cfg
      and now = 1000 and err = JWTError]
  note k2 = decode_failure_kinds [where tok = bob_refresh and cfg = example_cfg
      and now = 700000 and err = ExpiredSignatureError]
  note k3 = decode_failure_kinds [where tok = bob_access and cfg = example_cfg
      and now = 100 and p = "access_claims ''b@x.com''" and sc = "JStr ''access_token''"]
  note k4 = decode_failure_kinds [where tok = bob_refresh and cfg = example_cfg
      and now = 100 and p = "refresh_claims ''b@x.com''" and sc = "JStr ''refresh_token''"]
  note k5 = decode_failure_kinds [where tok = alice_confirmation and cfg = example_cfg
      and now = 100 and p = "confirmation_claims ''a@x.com''"]
  from k1 t have c1: "decode_refresh_token example_cfg 1000 tampered_token
       = Inl (HTTPException 401 ''Could not validate credentials'')"
    and c2: "get_current_user_decode example_cfg 1000 tampered_token
       = Inl (HTTPException 401 ''Could not validate credentials'')"
    by blast+
  from k2 x have c3: "decode_refresh_token example_cfg 700000 bob_refresh
       = Inl (HTTPException 401 ''Could not validate credentials'')"
    by blast
  from k3 a sa ne have c4: "decode_refresh_token example_cfg 100 bob_access
       = Inl (HTTPException 401 ''Invalid scope for token'')"
    by blast
  from k4 r sr ne' have c5: "get_current_user_decode example_cfg 100 bob_refresh
       = Inl (HTTPException 401 ''Could not validate credentials'')"
    by blast
  from k5 c sc have c6: "decode_refresh_token example_cfg 100 alice_confirmation
       = Inl (KeyError ''scope'')"
    and c7: "get_current_user_decode example_cfg 100 alice_confirmation
       = Inl (KeyError ''scope'')"
    by blast+
  from t x a r c sa sr sc c1 c2 c3 c4 c5 c6 c7 example_issue(6) show ?thesis by blast
qed

text \<open>
  C5, as stated, fails: the decoding of the confirmation path accepts the validly signed,
  unexpired access token that the program issues for alice, which bears a scope.
\<close>

theorem confirmation_decode_accepts_scoped_token:
  "create_access_token example_cfg 100 [(''sub'', JStr ''a@x.com'')] None = Inr alice_access
   \<and> get_email_from_token example_cfg 100 alice_access = Inr (JStr ''a@x.com'')"
  by (simp add: codec_defs example_defs signs_with_example datetime_min_def datetime_max_def)

text \<open>
  C5, amended. \<open>get_email_from_token\<close> makes no test of the scope: every token that the
  library accepts (validly signed, unexpired) and that has a \<open>sub\<close> claim is decoded to
  that subject, whether or not it carries a scope field.
\<close>

theorem confirmation_decode_ignores_scope:
  assumes "jwt_decode tok (secret_key cfg) [algorithm cfg] now = Inr p"
    and "map_of p ''sub'' = Some e"
  shows "get_email_from_token cfg now tok = Inr e"
  using assms by (simp add: get_email_from_token_def)

theorem confirmation_decode_ignores_scope_witness:
  "jwt_decode bob_refresh (secret_key example_cfg) [algorithm example_cfg] 100
       = Inr [(''sub'', JStr ''b@x.com''), (''iat'', JInt 100), (''exp'', JInt 604900),
              (''scope'', JStr ''refresh_token'')]
   \<and> get_email_from_token example_cfg 100 bob_refresh = Inr (JStr ''b@x.com'')"
proof -
  let ?pr = "[(''sub'', JStr ''b@x.com''), (''iat'', JInt 100), (''exp'', JInt 604900),
              (''scope'', JStr ''refresh_token'')]"
  have r: "jwt_decode bob_refresh (secret_key example_cfg) [algorithm example_cfg] 100 = Inr ?pr"
    by (simp add: codec_defs example_defs signs_with_example)
  have s: "map_of ?pr ''sub'' = Some (JStr ''b@x.com'')"
    by simp
  from confirmation_decode_ignores_scope [OF r s] r show ?thesis by blast
qed

section \<open>The credential hasher\<close>




section \<open>Resolving the current user\<close>

text \<open>
  C6, as stated, fails: bob presents the valid access token issued for him, the cache has
  no entry, the directory has his row, the cache write fails, and the call fails with the
  error of the cache client.
\<close>

theorem cache_write_failure_fails_call:
  "create_access_token example_cfg 100 [(''sub'', JStr ''b@x.com'')] None = Inr bob_access
   \<and> get_current_user_decode example_cfg 100 bob_access = Inr (JStr ''b@x.com'')
   \<and> fst (get_user_by_email (JStr ''b@x.com'') example_world) = Some bob
   \<and> fst (get_current_user example_cfg 100 set_unreachable bob_access example_world)
       = Inl RedisError"
  by (simp add: codec_defs example_defs signs_with_example datetime_min_def datetime_max_def
      get_current_user_def get_user_by_email_def user_key_def cache_get_def record_event_def
      Let_def)

text \<open>
  C6, amended. When \<open>resolve_current_user\<close> has decoded a valid access token, missed the
  cache and found the user in the directory, a failure of the cache write is not
  swallowed: the call fails with the error of the cache client and returns no identity.
\<close>

theorem cache_write_failure_propagates:
  assumes "get_current_user_decode cfg now tok = Inr e"
    and "get_out ev = Completes"
    and "cache_get now (user_key e) w = None"
    and "fst (get_user_by_email e w) = Some u"
    and "set_out ev = Fails err"
  shows "fst (get_current_user cfg now ev tok w) = Inl err"
  using assms(5) by (simp add: miss_run [OF assms(1-4)] Let_def)

theorem cache_write_failure_propagates_witness:
  "get_current_user_decode example_cfg 400 bob_access = Inr (JStr ''b@x.com'')
   \<and> get_out set_unreachable = Completes
   \<and> cache_get 400 (user_key (JStr ''b@x.com'')) example_world = None
   \<and> fst (get_user_by_email (JStr ''b@x.com'') example_world) = Some bob
   \<and> set_out set_unreachable = Fails RedisError
   \<and> fst (get_current_user example_cfg 400 set_unreachable bob_access example_world)
       = Inl RedisError"
proof -
  have d: "get_current_user_decode example_cfg 400 bob_access = Inr (JStr ''b@x.com'')"
    by (simp add: bob_access_decodes)
  have g: "get_out set_unreachable = Completes"
    and s: "set_out set_unreachable = Fails RedisError"
    by (simp_all add: set_unreachable_def)
  from cache_write_failure_propagates [OF d g example_cache_empty example_lookups(2) s]
    d g s example_cache_empty example_lookups(2)
  show ?thesis by blast
qed

text \<open>
  C8, as stated, fails. A valid, unexpired access token whose subject is absent from the
  cache and has no row in the directory: the call makes one directory query and no cache
  write, and a second call 400 seconds later makes a directory query again. With bob's
  row present but the cache write failing, the second call makes a directory query too;
  and when the cache read fails, the call makes no directory query at all.
\<close>

theorem resolve_counts_depend_on_directory_and_cache:
  "get_current_user_decode example_cfg 100 stranger_access = Inr (JStr ''c@x.com'')
   \<and> cache_get 100 (user_key (JStr ''c@x.com'')) example_world = None
   \<and> db_queries (snd (get_current_user example_cfg 100 sync_client stranger_access
                        example_world)) = 1
   \<and> cache_writes (snd (get_current_user example_cfg 100 sync_client stranger_access
                          example_world)) = 0
   \<and> db_queries (snd (get_current_user example_cfg 500 sync_client stranger_access
            (snd (get_current_user example_cfg 100 sync_client stranger_access
                    example_world)))) = 2
   \<and> db_queries (snd (get_current_user example_cfg 500 set_unreachable bob_access
            (snd (get_current_user example_cfg 100 set_unreachable bob_access
                    example_world)))) = 2
   \<and> db_queries (snd (get_current_user example_cfg 100 cache_unreachable bob_access
                        example_world)) = 0"
proof -
  let ?c = "JStr ''c@x.com''" and ?b = "JStr ''b@x.com''"
  have dc: "get_current_user_decode example_cfg 100 stranger_access = Inr ?c"
    and dc': "get_current_user_decode example_cfg 500 stranger_access = Inr ?c"
    and db: "get_current_user_decode example_cfg 100 bob_access = Inr ?b"
    and db': "get_current_user_decode example_cfg 500 bob_access = Inr ?b"
    by (simp_all add: stranger_access_decodes bob_access_decodes)
  have gs: "get_out sync_client = Completes"
    and gu: "get_out set_unreachable = Completes"
    and su: "set_out set_unreachable = Fails RedisError"
    and gc: "get_out cache_unreachable = Fails RedisError"
    by (simp_all add: sync_client_def set_unreachable_def cache_unreachable_def)
  let ?w1 = "record_event (DbQuery ?c) (record_event (CacheGet (user_key ?c)) example_world)"
  have r1: "get_current_user example_cfg 100 sync_client stranger_access example_world
              = (Inl credentials_exception, ?w1)"
    using dc gs example_cache_empty example_lookups(3) by (rule absent_run)
  have r2: "get_current_user example_cfg 500 sync_client stranger_access ?w1
              = (Inl credentials_exception,
                 record_event (DbQuery ?c) (record_event (CacheGet (user_key ?c)) ?w1))"
    using dc' gs by (rule absent_run) (simp_all add: example_cache_empty example_lookups(3))
  let ?w3 = "record_event (CacheSet (user_key ?b))
               (record_event (DbQuery ?b) (record_event (CacheGet (user_key ?b)) example_world))"
  have r3: "get_current_user example_cfg 100 set_unreachable bob_access example_world
              = (Inl RedisError, ?w3)"
    by (simp add: miss_run [OF db gu example_cache_empty example_lookups(2)] su Let_def)
  have m4: "cache_get 500 (user_key ?b) ?w3 = None"
    and l4: "fst (get_user_by_email ?b ?w3) = Some bob"
    by (simp_all add: example_cache_empty example_lookups(2))
  have r4: "get_current_user example_cfg 500 set_unreachable bob_access ?w3
              = (Inl RedisError,
                 record_event (CacheSet (user_key ?b))
                   (record_event (DbQuery ?b) (record_event (CacheGet (user_key ?b)) ?w3)))"
    by (simp add: miss_run [OF db' gu m4 l4] su Let_def)
  have r5: "get_current_user example_cfg 100 cache_unreachable bob_access example_world
              = (Inl RedisError, record_event (CacheGet (user_key ?b)) example_world)"
    using db gc by (rule read_failure_run)
  show ?thesis
    by (simp add: dc example_cache_empty r1 r2 r3 r4 r5 db_queries_record_event
        cache_writes_record_event example_counts)
qed

text \<open>
  C8, amended. For a valid, unexpired access token whose subject is absent from the
  cache, when the cache read completes: if the subject has a row in the directory, the
  call makes exactly one directory query and exactly one cache write, and, provided the
  write reaches the cache, a second call for the same subject less than 900 seconds after
  the first whose cache read completes makes no directory query and returns the snapshot
  that the first call wrote; if the subject has no row, the call fails with 401 "Could
  not validate credentials" after exactly one directory query and no cache write.
\<close>

theorem resolve_lookup_and_write_counts:
  assumes "get_current_user_decode cfg now tok = Inr e"
    and "get_out ev = Completes"
    and "cache_get now (user_key e) w = None"
  shows "(fst (get_user_by_email e w) = Some u \<longrightarrow>
            db_queries (snd (get_current_user cfg now ev tok w)) = db_queries w + 1
          \<and> cache_writes (snd (get_current_user cfg now ev tok w)) = cache_writes w + 1
          \<and> (command_runs (set_out ev) \<and> get_current_user_decode cfg now2 tok2 = Inr e
               \<and> get_out ev2 = Completes \<and> now2 < now + 900 \<longrightarrow>
               fst (get_current_user cfg now2 ev2 tok2 (snd (get_current_user cfg now ev tok w)))
                 = Inr u
             \<and> db_queries (snd (get_current_user cfg now2 ev2 tok2
                   (snd (get_current_user cfg now ev tok w))))
                 = db_queries (snd (get_current_user cfg now ev tok w))))
       \<and> (fst (get_user_by_email e w) = None \<longrightarrow>
            fst (get_current_user cfg now ev tok w) = Inl credentials_exception
          \<and> db_queries (snd (get_current_user cfg now ev tok w)) = db_queries w + 1
          \<and> cache_writes (snd (get_current_user cfg now ev tok w)) = cache_writes w)"
proof (intro conjI impI)
  assume found: "fst (get_user_by_email e w) = Some u"
  show "db_queries (snd (get_current_user cfg now ev tok w)) = db_queries w + 1"
    using assms found by (rule miss_counts(1))
  show "cache_writes (snd (get_current_user cfg now ev tok w)) = cache_writes w + 1"
    using assms found by (rule miss_counts(2))
next
  assume found: "fst (get_user_by_email e w) = Some u"
    and second: "command_runs (set_out ev) \<and> get_current_user_decode cfg now2 tok2 = Inr e
                 \<and> get_out ev2 = Completes \<and> now2 < now + 900"
  let ?w' = "snd (get_current_user cfg now ev tok w)"
  have hit: "cache_get now2 (user_key e) ?w' = Some u"
    using assms found second by (intro miss_leaves_entry) simp_all
  have run: "get_current_user cfg now2 ev2 tok2 ?w'
               = (Inr u, record_event (CacheGet (user_key e)) ?w')"
    using second hit by (intro hit_run) simp_all
  show "fst (get_current_user cfg now2 ev2 tok2 ?w') = Inr u"
    by (simp add: run)
  show "db_queries (snd (get_current_user cfg now2 ev2 tok2 ?w')) = db_queries ?w'"
    by (simp add: run db_queries_record_event)
next
  assume absent: "fst (get_user_by_email e w) = None"
  note run = absent_run [OF assms absent]
  show "fst (get_current_user cfg now ev tok w) = Inl credentials_exception"
    by (simp add: run)
  show "db_queries (snd (get_current_user cfg now ev tok w)) = db_queries w + 1"
    by (simp add: run db_queries_record_event)
  show "cache_writes (snd (get_current_user cfg now ev tok w)) = cache_writes w"
    by (simp add: run cache_writes_record_event)
qed

text \<open>C8, amended, at inputs, with the client as the program builds it: bob's access
  token, issued at second 100, is presented at second 100 on an empty cache and again at
  second 500; and the access token of a subject without a row is presented at second
  100.\<close>

theorem resolve_lookup_and_write_counts_witness:
  "get_current_user_decode example_cfg 100 bob_access = Inr (JStr ''b@x.com'')
   \<and> get_out sync_client = Completes
   \<and> cache_get 100 (user_key (JStr ''b@x.com'')) example_world = None
   \<and> fst (get_user_by_email (JStr ''b@x.com'') example_world) = Some bob
   \<and> command_runs (set_out sync_client)
   \<and> get_current_user_decode example_cfg 500 bob_access = Inr (JStr ''b@x.com'')
   \<and> (500::int) < 100 + 900
   \<and> db_queries (snd (get_current_user example_cfg 100 sync_client bob_access example_world)) = 1
   \<and> cache_writes (snd (get_current_user example_cfg 100 sync_client bob_access example_world)) = 1
   \<and> fst (get_current_user example_cfg 500 sync_client bob_access
            (snd (get_current_user example_cfg 100 sync_client bob_access example_world)))
       = Inr bob
   \<and> db_queries (snd (get_current_user example_cfg 500 sync_client bob_access
            (snd (get_current_user example_cfg 100 sync_client bob_access example_world)))) = 1
   \<and> get_current_user_decode example_cfg 100 stranger_access = Inr (JStr ''c@x.com'')
   \<and> cache_get 100 (user_key (JStr ''c@x.com'')) example_world = None
   \<and> fst (get_user_by_email (JStr ''c@x.com'') example_world) = None
   \<and> fst (get_current_user example_cfg 100 sync_client stranger_access example_world)
       = Inl credentials_exception
   \<and> db_queries (snd (get_current_user example_cfg 100 sync_client stranger_access
                        example_world)) = 1
   \<and> cache_writes (snd (get_current_user example_cfg 100 sync_client stranger_access
                          example_world)) = 0"
proof -
  have d1: "get_current_user_decode example_cfg 100 bob_access = Inr (JStr ''b@x.com'')"
    and d2: "get_current_user_decode example_cfg 500 bob_access = Inr (JStr ''b@x.com'')"
    and d3: "get_current_user_decode example_cfg 100 stranger_access = Inr (JStr ''c@x.com'')"
    by (simp_all add: bob_access_decodes stranger_access_decodes)
  have g: "get_out sync_client = Completes"
    and c: "command_runs (set_out sync_client)"
    by (simp_all add: sync_client_def)
  have t: "(500::int) < 100 + 900"
    by simp
  note mb = example_cache_empty [of 100 "user_key (JStr ''b@x.com'')"]
  note mc = example_cache_empty [of 100 "user_key (JStr ''c@x.com'')"]
  from resolve_lookup_and_write_counts
         [OF d1 g mb, of bob 500 bob_access sync_client]
       example_lookups(2) c d2 g t example_counts
  have first:
    "db_queries (snd (get_current_user example_cfg 100 sync_client bob_access example_world)) = 1
     \<and> cache_writes (snd (get_current_user example_cfg 100 sync_client bob_access example_world)) = 1
     \<and> fst (get_current_user example_cfg 500 sync_client bob_access
              (snd (get_current_user example_cfg 100 sync_client bob_access example_world)))
         = Inr bob
     \<and> db_queries (snd (get_current_user example_cfg 500 sync_client bob_access
              (snd (get_current_user example_cfg 100 sync_client bob_access example_world)))) = 1"
    by simp
  from resolve_lookup_and_write_counts [OF d3 g mc, of alice 0 bob_access sync_client]
       example_lookups(3) example_counts
  have second:
    "fst (get_current_user example_cfg 100 sync_client stranger_access example_world)
       = Inl credentials_exception
     \<and> db_queries (snd (get_current_user example_cfg 100 sync_client stranger_access
                          example_world)) = 1
     \<and> cache_writes (snd (get_current_user example_cfg 100 sync_client stranger_access
                            example_world)) = 0"
    by simp
  from d1 d2 d3 g c t mb mc example_lookups(2,3) first second show ?thesis by blast
qed

end
